theory Spec2Isabelle
  imports Complex_Main "HOL-Library.Char_ord" "HOL-Library.List_Lexorder"
begin

section \<open>Strings\<close>

text \<open>
  Questions, months, entities and categories are Python \<open>str\<close> values, modelled as
  \<open>string\<close> (lists of 8-bit characters). \<open>str.lower\<close> and the case-insensitive
  matching of \<open>re\<close> act on the letters \<open>A\<close>..\<open>Z\<close>; every other character is
  left as it is.
\<close>

definition lower_char :: "char \<Rightarrow> char" where
  "lower_char c =
     (case map_of (zip ''ABCDEFGHIJKLMNOPQRSTUVWXYZ'' ''abcdefghijklmnopqrstuvwxyz'') c of
        None \<Rightarrow> c
      | Some d \<Rightarrow> d)"

definition lower :: "string \<Rightarrow> string" where
  "lower s = map lower_char s"

text \<open>\<open>startswith p s\<close> is Python's \<open>s.startswith(p)\<close>.\<close>

fun startswith :: "string \<Rightarrow> string \<Rightarrow> bool" where
  "startswith [] s = True"
| "startswith (p # ps) [] = False"
| "startswith (p # ps) (c # cs) = (p = c \<and> startswith ps cs)"

text \<open>\<open>contains p s\<close> is Python's \<open>p in s\<close> on strings: \<open>p\<close> occurs in \<open>s\<close> as a
  contiguous block.\<close>

fun contains :: "string \<Rightarrow> string \<Rightarrow> bool" where
  "contains p [] = (p = [])"
| "contains p (c # cs) = (startswith p (c # cs) \<or> contains p cs)"

section \<open>Intent classifier (agent.py, classify\_intent)\<close>

datatype intent =
    revenue_vs_budget
  | gross_margin_trend
  | opex_breakdown
  | ebitda_trend
  | ebitda_vs_budget
  | cash_runway
  | unknown

definition classify_intent :: "string \<Rightarrow> intent" where
  "classify_intent question =
     (let q = lower question in
      if contains ''revenue'' q \<and> contains ''budget'' q then revenue_vs_budget
      else if contains ''gross margin'' q then gross_margin_trend
      else if contains ''opex'' q then opex_breakdown
      else if contains ''ebitda'' q \<and> \<not> contains ''budget'' q then ebitda_trend
      else if contains ''ebitda'' q \<and> contains ''budget'' q then ebitda_vs_budget
      else if contains ''cash runway'' q then cash_runway
      else unknown)"

section \<open>Number formatting\<close>

text \<open>
  Amounts are pandas \<open>float64\<close> cells. They are modelled as rationals, a missing cell
  (\<open>NaN\<close>) as \<open>None\<close>; rounding error, infinities and overflow of the binary
  floating-point format are outside the model.
\<close>

definition digit_char :: "nat \<Rightarrow> char" where
  "digit_char d = ''0123456789'' ! (d mod 10)"

function show_nat :: "nat \<Rightarrow> string" where
  "show_nat n = (if n < 10 then [digit_char n] else show_nat (n div 10) @ [digit_char (n mod 10)])"
  by pat_completeness auto
termination
  by (relation "measure id") auto

declare show_nat.simps [simp del]

text \<open>Rounding of a non-negative rational to the nearest integer, ties to the even
  neighbour, as the \<open>f\<close> presentation type of Python's format does.\<close>

definition round_half_even :: "rat \<Rightarrow> nat" where
  "round_half_even x =
     (let (n, d) = quotient_of x; q = n div d; r = n mod d in
      nat (if 2 * r < d then q
           else if d < 2 * r then q + 1
           else if even q then q else q + 1))"

fun group3 :: "string \<Rightarrow> string" where
  "group3 (a # b # c # d # rest) = a # b # c # CHR '','' # group3 (d # rest)"
| "group3 s = s"

text \<open>\<open>format_money x\<close> is \<open>f"{x:,.0f}"\<close>: no decimals, thousands separated by
  commas, a minus sign for a negative value (also when it rounds to zero).\<close>

definition format_money :: "rat \<Rightarrow> string" where
  "format_money x =
     (if x < 0 then ''-'' else []) @ rev (group3 (rev (show_nat (round_half_even \<bar>x\<bar>))))"

text \<open>\<open>format_1f x\<close> is \<open>f"{x:.1f}"\<close> on a finite value.\<close>

definition format_1f :: "rat \<Rightarrow> string" where
  "format_1f x =
     (let n = round_half_even (\<bar>x\<bar> * 10) in
      (if x < 0 then ''-'' else []) @ show_nat (n div 10) @ ''.'' @ [digit_char (n mod 10)])"

section \<open>Data model\<close>

text \<open>
  A table is the list of its rows in order. In the actuals and budget tables the
  cells of \<open>month\<close>, \<open>entity\<close>, \<open>currency\<close> and \<open>amount\<close> may be missing;
  \<open>account_category\<close> is a string in every row. The columns of the FX table and of
  the cash table may all be missing.
\<close>

record fin_record =
  month :: "string option"
  entity :: "string option"
  account_category :: string
  amount :: "rat option"
  currency :: "string option"

record fx_record =
  fx_month :: "string option"
  fx_currency :: "string option"
  fx_rate_to_usd :: "rat option"

record cash_record =
  cash_month :: "string option"
  cash_entity :: "string option"
  cash_usd :: "rat option"

text \<open>A row of the merged table of \<open>convert_to_usd\<close>: the record's columns, the
  joined rate, and (after line 34) the computed \<open>amount_usd\<close>.\<close>

record merged_record = fin_record +
  rate_to_usd :: "rat option"

record usd_record = merged_record +
  amount_usd :: "rat option"

datatype error = KeyError string | ValueError string

datatype chart =
    BarChart string "string list" "rat list"
  | LineChart string "string list" "rat option list"

type_synonym response = "string \<times> chart option"

section \<open>Currency normalizer (tools.py, convert\_to\_usd)\<close>

text \<open>\<open>df.dropna(subset=["month", "currency", "amount"])\<close>\<close>

definition dropna_records :: "fin_record list \<Rightarrow> fin_record list" where
  "dropna_records df = filter (\<lambda>r. month r \<noteq> None \<and> currency r \<noteq> None \<and> amount r \<noteq> None) df"

text \<open>\<open>fx.dropna(subset=["month", "currency", "rate_to_usd"])\<close>\<close>

definition dropna_fx :: "fx_record list \<Rightarrow> fx_record list" where
  "dropna_fx fx =
     filter (\<lambda>f. fx_month f \<noteq> None \<and> fx_currency f \<noteq> None \<and> fx_rate_to_usd f \<noteq> None) fx"

text \<open>\<open>drop_duplicates(subset=["month", "currency"], keep="first")\<close>: a row is kept
  unless an earlier row has the same key.\<close>

fun drop_duplicates :: "(string option \<times> string option) list \<Rightarrow> fx_record list \<Rightarrow> fx_record list" where
  "drop_duplicates seen [] = []"
| "drop_duplicates seen (f # fs) =
     (if (fx_month f, fx_currency f) \<in> set seen then drop_duplicates seen fs
      else f # drop_duplicates ((fx_month f, fx_currency f) # seen) fs)"

text \<open>\<open>clean_df.merge(clean_fx, on=["month", "currency"], how="left")\<close>: the left
  rows in order, each once per matching right row (in the right table's order), or once
  with a missing rate when no right row matches.\<close>

definition with_rate :: "fin_record \<Rightarrow> rat option \<Rightarrow> merged_record" where
  "with_rate r x =
     \<lparr>month = month r, entity = entity r, account_category = account_category r,
      amount = amount r, currency = currency r, rate_to_usd = x\<rparr>"

definition merge_left :: "fin_record list \<Rightarrow> fx_record list \<Rightarrow> merged_record list" where
  "merge_left df fx =
     concat (map (\<lambda>r.
       case filter (\<lambda>f. fx_month f = month r \<and> fx_currency f = currency r) fx of
         [] \<Rightarrow> [with_rate r None]
       | ms \<Rightarrow> map (\<lambda>f. with_rate r (fx_rate_to_usd f)) ms) df)"

text \<open>The product of two cells is missing when either cell is.\<close>

definition mul_cells :: "rat option \<Rightarrow> rat option \<Rightarrow> rat option" where
  "mul_cells a b = (case (a, b) of (Some x, Some y) \<Rightarrow> Some (x * y) | _ \<Rightarrow> None)"

definition set_amount_usd :: "merged_record \<Rightarrow> usd_record" where
  "set_amount_usd m =
     \<lparr>month = month m, entity = entity m, account_category = account_category m,
      amount = amount m, currency = currency m, rate_to_usd = rate_to_usd m,
      amount_usd = mul_cells (amount m) (rate_to_usd m)\<rparr>"

definition convert_to_usd :: "fin_record list \<Rightarrow> fx_record list \<Rightarrow> usd_record list" where
  "convert_to_usd df fx =
     (let clean_df = dropna_records df;
          clean_fx = dropna_fx fx;
          clean_fx = drop_duplicates [] clean_fx;
          merged = merge_left clean_df clean_fx;
          merged = filter (\<lambda>m. rate_to_usd m \<noteq> None) merged
      in map set_amount_usd merged)"

text \<open>\<open>Series.sum()\<close> skips missing cells; the sum of no cells is zero.\<close>

definition sum_cells :: "rat option list \<Rightarrow> rat" where
  "sum_cells xs = sum_list (map (\<lambda>x. case x of None \<Rightarrow> 0 | Some v \<Rightarrow> v) xs)"

section \<open>Metric engine (tools.py)\<close>

definition get_revenue_vs_budget ::
  "string \<Rightarrow> string \<Rightarrow> fin_record list \<Rightarrow> fin_record list \<Rightarrow> fx_record list \<Rightarrow> error + response" where
  "get_revenue_vs_budget mth ent actuals budget fx =
     (let actuals_usd = convert_to_usd actuals fx;
          budget_usd = convert_to_usd budget fx;
          actual_rev = sum_cells (map amount_usd (filter (\<lambda>r. month r = Some mth \<and>
              entity r = Some ent \<and> account_category r = ''Revenue'') actuals_usd));
          budget_rev = sum_cells (map amount_usd (filter (\<lambda>r. month r = Some mth \<and>
              entity r = Some ent \<and> account_category r = ''Revenue'') budget_usd));
          text = ''Revenue in '' @ mth @ '' for '' @ ent @ '': Actual $'' @ format_money actual_rev
                 @ '' vs Budget $'' @ format_money budget_rev
      in Inr (text, Some (BarChart (''Revenue vs Budget - '' @ mth @ '' ('' @ ent @ '')'')
                [''Actual'', ''Budget''] [actual_rev, budget_rev])))"

text \<open>
  \<open>df.pivot_table(index="month", columns="account_category", values="amount_usd",
  aggfunc="sum").reset_index()\<close>: one row per month of the slice and one column per
  category of the slice, both in sorted order; a cell holds the sum of the group, and
  is missing when the slice has no row of that month and category. A table with no rows
  gives a pivot with no category columns.
\<close>

record pivot =
  pv_month :: "string list"
  pv_columns :: "(string \<times> rat option list) list"

definition pivot_table :: "usd_record list \<Rightarrow> pivot" where
  "pivot_table df =
     (let months = sort (remdups (List.map_filter month df));
          cats = sort (remdups (map account_category (filter (\<lambda>r. month r \<noteq> None) df)))
      in \<lparr>pv_month = months,
          pv_columns = map (\<lambda>c. (c, map (\<lambda>m.
             (let g = filter (\<lambda>r. month r = Some m \<and> account_category r = c) df
              in if g = [] then None else Some (sum_cells (map amount_usd g)))) months)) cats\<rparr>)"

text \<open>\<open>pivot[name]\<close>: the column, or \<open>KeyError\<close> when the pivot has no such column.\<close>

definition getitem :: "pivot \<Rightarrow> string \<Rightarrow> error + rat option list" where
  "getitem pv name =
     (case map_of (pv_columns pv) name of None \<Rightarrow> Inl (KeyError name) | Some col \<Rightarrow> Inr col)"

text \<open>\<open>pivot[name] = col\<close>: the column is replaced, or appended when it is new.\<close>

definition setitem :: "pivot \<Rightarrow> string \<Rightarrow> rat option list \<Rightarrow> pivot" where
  "setitem pv name col =
     (if name \<in> set (map fst (pv_columns pv))
      then pv\<lparr>pv_columns := map (\<lambda>(n, c). if n = name then (n, col) else (n, c)) (pv_columns pv)\<rparr>
      else pv\<lparr>pv_columns := pv_columns pv @ [(name, col)]\<rparr>)"

text \<open>Arithmetic on cells: a missing operand gives a missing result. A quotient by zero
  is an infinity or \<open>NaN\<close> in floating point, not an error; it is modelled as a missing
  cell.\<close>

definition sub_cells :: "rat option \<Rightarrow> rat option \<Rightarrow> rat option" where
  "sub_cells a b = (case (a, b) of (Some x, Some y) \<Rightarrow> Some (x - y) | _ \<Rightarrow> None)"

definition div_cells :: "rat option \<Rightarrow> rat option \<Rightarrow> rat option" where
  "div_cells a b =
     (case (a, b) of (Some x, Some y) \<Rightarrow> if y = 0 then None else Some (x / y) | _ \<Rightarrow> None)"

definition get_gross_margin_trend1 :: "fin_record list \<Rightarrow> fx_record list \<Rightarrow> string \<Rightarrow> error + response" where
  "get_gross_margin_trend1 actuals fx ent =
     (let df_usd = convert_to_usd actuals fx;
          df_usd = filter (\<lambda>r. entity r = Some ent) df_usd;
          pv = pivot_table df_usd
      in case getitem pv ''Revenue'' of
           Inl e \<Rightarrow> Inl e
         | Inr revenue \<Rightarrow>
             (case getitem pv ''COGS'' of
                Inl e \<Rightarrow> Inl e
              | Inr cogs \<Rightarrow>
                  (let pct = map (\<lambda>(r, c). mul_cells (div_cells (sub_cells r c) r) (Some 100))
                               (zip revenue cogs);
                       pv = setitem pv ''GrossMarginPct'' pct
                   in Inr (''Gross Margin % Trend for '' @ ent @ '':'',
                           Some (LineChart (''Gross Margin % Trend - '' @ ent) (pv_month pv) pct)))))"

text \<open>\<open>opex_df.groupby("account_category")["amount_usd"].sum()\<close>: one entry per
  category of the slice, in sorted order.\<close>

definition groupby_category_sum :: "usd_record list \<Rightarrow> (string \<times> rat) list" where
  "groupby_category_sum df =
     map (\<lambda>c. (c, sum_cells (map amount_usd (filter (\<lambda>r. account_category r = c) df))))
       (sort (remdups (map account_category df)))"

fun join_lines :: "string list \<Rightarrow> string" where
  "join_lines [] = []"
| "join_lines [l] = l"
| "join_lines (l # ls) = l @ [CHR 0x0A] @ join_lines ls"

definition get_opex_breakdown1 ::
  "string \<Rightarrow> string \<Rightarrow> fin_record list \<Rightarrow> fx_record list \<Rightarrow> error + response" where
  "get_opex_breakdown1 mth ent actuals fx =
     (let df_usd = convert_to_usd actuals fx;
          opex_df = filter (\<lambda>r. month r = Some mth \<and> entity r = Some ent \<and>
                       startswith ''Opex'' (account_category r)) df_usd;
          opex_summary = groupby_category_sum opex_df;
          text_lines = (''Opex breakdown for '' @ mth @ '' ('' @ ent @ ''):'')
                       # map (\<lambda>(category, amt). category @ '': $'' @ format_money amt) opex_summary
      in Inr (join_lines text_lines,
              Some (BarChart (''Opex Breakdown - '' @ mth @ '' ('' @ ent @ '')'')
                (map fst opex_summary) (map snd opex_summary))))"

text \<open>\<open>pivot[opex_cols].sum(axis=1)\<close>: the sum of each row over the chosen columns,
  missing cells skipped.\<close>

definition row_sums :: "nat \<Rightarrow> rat option list list \<Rightarrow> rat option list" where
  "row_sums n cols = map (\<lambda>i. Some (sum_cells (map (\<lambda>col. col ! i) cols))) [0..<n]"

definition get_ebitda_trend :: "fin_record list \<Rightarrow> fx_record list \<Rightarrow> string \<Rightarrow> error + response" where
  "get_ebitda_trend actuals fx ent =
     (let df_usd = convert_to_usd actuals fx;
          df_usd = filter (\<lambda>r. entity r = Some ent) df_usd;
          pv = pivot_table df_usd;
          n = length (pv_month pv);
          opex_cols = filter (\<lambda>(c, col). startswith ''Opex'' c) (pv_columns pv);
          opex_total = (if opex_cols \<noteq> [] then row_sums n (map snd opex_cols)
                        else replicate n (Some 0));
          pv = setitem pv ''OpexTotal'' opex_total
      in case getitem pv ''Revenue'' of
           Inl e \<Rightarrow> Inl e
         | Inr revenue \<Rightarrow>
             (case getitem pv ''COGS'' of
                Inl e \<Rightarrow> Inl e
              | Inr cogs \<Rightarrow>
                  (case getitem pv ''OpexTotal'' of
                     Inl e \<Rightarrow> Inl e
                   | Inr opex \<Rightarrow>
                       (let ebitda = map (\<lambda>((r, c), x). sub_cells (sub_cells r c) x)
                                       (zip (zip revenue cogs) opex);
                            pv = setitem pv ''EBITDA'' ebitda
                        in Inr (''EBITDA trend for '' @ ent @ '' over time.'',
                                Some (LineChart (''EBITDA Trend - '' @ ent) (pv_month pv) ebitda))))))"

definition compute_ebitda :: "usd_record list \<Rightarrow> rat" where
  "compute_ebitda df =
     (let revenue = sum_cells (map amount_usd (filter (\<lambda>r. account_category r = ''Revenue'') df));
          cogs = sum_cells (map amount_usd (filter (\<lambda>r. account_category r = ''COGS'') df));
          opex = sum_cells (map amount_usd (filter (\<lambda>r. startswith ''Opex'' (account_category r)) df))
      in revenue - cogs - opex)"

definition get_ebitda_vs_budget ::
  "string \<Rightarrow> string \<Rightarrow> fin_record list \<Rightarrow> fin_record list \<Rightarrow> fx_record list \<Rightarrow> error + response" where
  "get_ebitda_vs_budget mth ent actuals budget fx =
     (let actuals_usd = convert_to_usd actuals fx;
          budget_usd = convert_to_usd budget fx;
          a = filter (\<lambda>r. month r = Some mth \<and> entity r = Some ent) actuals_usd;
          b = filter (\<lambda>r. month r = Some mth \<and> entity r = Some ent) budget_usd;
          actual_ebitda = compute_ebitda a;
          budget_ebitda = compute_ebitda b;
          text = ''EBITDA in '' @ mth @ '' for '' @ ent @ '': Actual $'' @ format_money actual_ebitda
                 @ '' vs Budget $'' @ format_money budget_ebitda
      in Inr (text, Some (BarChart (''EBITDA vs Budget - '' @ mth @ '' ('' @ ent @ '')'')
                [''Actual'', ''Budget''] [actual_ebitda, budget_ebitda])))"

subsection \<open>Cash runway\<close>

record flagged_record = usd_record +
  is_opex :: bool

definition set_is_opex :: "usd_record \<Rightarrow> flagged_record" where
  "set_is_opex r =
     \<lparr>month = month r, entity = entity r, account_category = account_category r,
      amount = amount r, currency = currency r, rate_to_usd = rate_to_usd r,
      amount_usd = amount_usd r, is_opex = startswith ''Opex'' (account_category r)\<rparr>"

record monthly_row =
  mo_month :: string
  Revenue :: rat
  COGS :: rat
  Opex :: rat

record burn_row = monthly_row +
  NetBurn :: rat

text \<open>
  \<open>df_usd.groupby("month").apply(lambda g: pd.Series({...})).reset_index()\<close>: one row
  per month of the slice, in sorted order, with the three sums of the month's group.

  When the slice has no rows there is no group and pandas never calls the lambda: the
  result of \<open>apply\<close> is an empty frame that keeps the columns of \<open>df_usd\<close>, its index
  named \<open>month\<close>. \<open>reset_index\<close> then fails to insert the index as a column, since a
  column \<open>month\<close> is already there. (In a pandas that leaves the grouping column out
  of the frame given to \<open>apply\<close>, the failure is the \<open>KeyError\<close> of
  \<open>monthly["COGS"]\<close> on the next line instead.)
\<close>

definition groupby_month_apply :: "flagged_record list \<Rightarrow> error + monthly_row list" where
  "groupby_month_apply df =
     (let months = sort (remdups (List.map_filter month df)) in
      if months = [] then Inl (ValueError ''cannot insert month, already exists'')
      else Inr (map (\<lambda>m.
        (let g = filter (\<lambda>r. month r = Some m) df in
         \<lparr>mo_month = m,
          Revenue = sum_cells (map amount_usd (filter (\<lambda>r. account_category r = ''Revenue'') g)),
          COGS = sum_cells (map amount_usd (filter (\<lambda>r. account_category r = ''COGS'') g)),
          Opex = sum_cells (map amount_usd (filter is_opex g))\<rparr>)) months))"

definition set_NetBurn :: "monthly_row \<Rightarrow> burn_row" where
  "set_NetBurn r =
     \<lparr>mo_month = mo_month r, Revenue = Revenue r, COGS = COGS r, Opex = Opex r,
      NetBurn = COGS r + Opex r - Revenue r\<rparr>"

text \<open>\<open>tail(3)\<close>: the last three rows, or all of them when there are fewer.\<close>

definition tail3 :: "'a list \<Rightarrow> 'a list" where
  "tail3 xs = drop (length xs - 3) xs"

text \<open>\<open>Series.mean()\<close>: missing (\<open>NaN\<close>) for a series with no cells.\<close>

definition mean :: "rat list \<Rightarrow> rat option" where
  "mean xs = (if xs = [] then None else Some (sum_list xs / of_nat (length xs)))"

text \<open>\<open>cash.dropna(subset=["month", "entity", "cash_usd"]).copy()\<close>: the rows with
  all three cells present, as triples (month, entity, cash\_usd).\<close>

definition dropna_cash :: "cash_record list \<Rightarrow> (string \<times> string \<times> rat) list" where
  "dropna_cash cash =
     List.map_filter (\<lambda>c.
       case (cash_month c, cash_entity c, cash_usd c) of
         (Some m, Some e, Some v) \<Rightarrow> Some (m, e, v)
       | _ \<Rightarrow> None) cash"

text \<open>Lines 284 to 293. \<open>sort_values("month")\<close> is modelled as a stable sort.\<close>

definition latest_cash_of :: "cash_record list \<Rightarrow> string \<Rightarrow> rat" where
  "latest_cash_of cash ent =
     (let cash_clean = dropna_cash cash;
          entity_cash = sort_key fst (filter (\<lambda>(m, e, v). e = ent) cash_clean)
      in if length entity_cash > 0 then snd (snd (last entity_cash))
         else (let overall_latest = sort_key fst cash_clean
               in if length overall_latest = 0 then 0
                  else snd (snd (last overall_latest))))"

text \<open>The runway is \<open>None\<close> for \<open>float('inf')\<close>.\<close>

definition format_runway :: "rat option \<Rightarrow> string" where
  "format_runway r = (case r of None \<Rightarrow> ''inf'' | Some x \<Rightarrow> format_1f x)"

definition format_avg_burn :: "rat option \<Rightarrow> string" where
  "format_avg_burn a = (case a of None \<Rightarrow> ''nan'' | Some x \<Rightarrow> format_money x)"

definition cash_runway_text :: "string \<Rightarrow> rat option \<Rightarrow> rat \<Rightarrow> rat option \<Rightarrow> string" where
  "cash_runway_text ent runway_months latest_cash avg_burn =
     ''Cash Runway for '' @ ent @ '': '' @ format_runway runway_months
     @ '' months (latest cash $'' @ format_money latest_cash
     @ '', avg burn $'' @ format_avg_burn avg_burn @ ''/month)''"

definition get_cash_runway ::
  "cash_record list \<Rightarrow> fin_record list \<Rightarrow> fx_record list \<Rightarrow> string \<Rightarrow> error + response" where
  "get_cash_runway cash actuals fx ent =
     (let df_usd = convert_to_usd actuals fx;
          df_usd = filter (\<lambda>r. entity r = Some ent) df_usd;
          df_usd = map set_is_opex df_usd
      in case groupby_month_apply df_usd of
           Inl e \<Rightarrow> Inl e
         | Inr monthly \<Rightarrow>
             (let monthly = map set_NetBurn monthly;
                  last3 = tail3 (sort_key mo_month monthly);
                  avg_burn = mean (map NetBurn last3);
                  latest_cash = latest_cash_of cash ent;
                  runway_months = (case avg_burn of
                                     None \<Rightarrow> None
                                   | Some b \<Rightarrow> if b > 0 then Some (latest_cash / b) else None)
              in Inr (cash_runway_text ent runway_months latest_cash avg_burn,
                      Some (LineChart (''Cash Burn Trend - '' @ ent)
                        (map mo_month monthly) (map (\<lambda>r. Some (NetBurn r)) monthly)))))"

section \<open>Query orchestrator (agent.py)\<close>

definition month_names :: "string list" where
  "month_names = [''January'', ''February'', ''March'', ''April'', ''May'', ''June'', ''July'',
     ''August'', ''September'', ''October'', ''November'', ''December'']"

definition is_digit :: "char \<Rightarrow> bool" where
  "is_digit c = (c \<in> set ''0123456789'')"

text \<open>
  The pattern \<open>(January|...|December) \d{4}\<close> with \<open>re.IGNORECASE\<close>, tried at the
  start of \<open>s\<close>: the alternatives in order, and for each the space and the four digits.
  The result is the matched text.
\<close>

definition match_here :: "string \<Rightarrow> string option" where
  "match_here s =
     (case find (\<lambda>m. startswith (lower m) (lower s) \<and>
                   (let rest = drop (length m) s
                    in startswith '' '' rest \<and> length (take 4 (drop 1 rest)) = 4 \<and>
                       list_all is_digit (take 4 (drop 1 rest)))) month_names of
        None \<Rightarrow> None
      | Some m \<Rightarrow> Some (take (length m + 5) s))"

text \<open>\<open>re.search\<close>: the match at the leftmost position that has one.\<close>

fun re_search :: "string \<Rightarrow> string option" where
  "re_search [] = match_here []"
| "re_search (c # cs) = (case match_here (c # cs) of Some t \<Rightarrow> Some t | None \<Rightarrow> re_search cs)"

text \<open>
  \<open>datetime.strptime(text, "%B %Y")\<close>: the whole text must be a full month name (in
  any letter case), white space, and four digits; the year must be at least 1. The
  result is the pair (year, month number).
\<close>

definition is_space :: "char \<Rightarrow> bool" where
  "is_space c = (c \<in> set [CHR '' '', CHR 0x09, CHR 0x0A, CHR 0x0B, CHR 0x0C, CHR 0x0D])"

definition digit_val :: "char \<Rightarrow> nat" where
  "digit_val c = (case map_of (zip ''0123456789'' [0..<10]) c of None \<Rightarrow> 0 | Some d \<Rightarrow> d)"

definition strptime :: "string \<Rightarrow> error + nat \<times> nat" where
  "strptime text =
     (case find (\<lambda>(i, m). startswith (lower m) (lower text)) (zip [1..<13] month_names) of
        None \<Rightarrow> Inl (ValueError ''time data does not match format'')
      | Some (i, m) \<Rightarrow>
          (let rest = drop (length m) text;
               ds = dropWhile is_space rest
           in if length ds = length rest \<or> length ds < 4 \<or> \<not> list_all is_digit (take 4 ds)
              then Inl (ValueError ''time data does not match format'')
              else if 4 < length ds then Inl (ValueError ''unconverted data remains'')
              else (let y = foldl (\<lambda>a c. 10 * a + digit_val c) 0 ds
                    in if y = 0 then Inl (ValueError ''year 0 is out of range'')
                       else Inr (y, i))))"

text \<open>\<open>dt.strftime("%Y-%m")\<close>, the year written with four digits.\<close>

definition strftime :: "nat \<times> nat \<Rightarrow> string" where
  "strftime dt =
     (case dt of (y, m) \<Rightarrow>
        [digit_char (y div 1000), digit_char (y div 100), digit_char (y div 10), digit_char y]
        @ ''-'' @ [digit_char (m div 10), digit_char m])"

definition parse_month_year :: "string \<Rightarrow> error + string option" where
  "parse_month_year text =
     (case strptime text of
        Inl (ValueError msg) \<Rightarrow> Inr None
      | Inl e \<Rightarrow> Inl e
      | Inr dt \<Rightarrow> Inr (Some (strftime dt)))"

text \<open>Lines 60 to 65 of \<open>run_agent\<close>.\<close>

definition extract_month :: "string \<Rightarrow> error + string option" where
  "extract_month question =
     (case re_search question of
        Some month_match \<Rightarrow> parse_month_year month_match
      | None \<Rightarrow> Inr None)"

text \<open>\<open>not month\<close>: true for \<open>None\<close> and for the empty string.\<close>

definition not_month :: "string option \<Rightarrow> bool" where
  "not_month m = (case m of None \<Rightarrow> True | Some s \<Rightarrow> s = [])"

text \<open>\<open>cash\<close> is \<open>None\<close> when the caller passes no cash table.\<close>

definition run_agent ::
  "string \<Rightarrow> fin_record list \<Rightarrow> fin_record list \<Rightarrow> fx_record list \<Rightarrow> cash_record list option
     \<Rightarrow> string \<Rightarrow> error + response" where
  "run_agent question actuals budget fx cash default_entity =
     (let intent = classify_intent question in
      if intent = unknown then Inr (''Sorry, I could not understand the question.'', None)
      else
        case extract_month question of
          Inl e \<Rightarrow> Inl e
        | Inr mth \<Rightarrow>
            (if intent = revenue_vs_budget then
               (if not_month mth
                then Inr (''Please specify the month (e.g., June 2024) for Revenue vs Budget.'', None)
                else case mth of
                       None \<Rightarrow> Inr (''Please specify the month (e.g., June 2024) for Revenue vs Budget.'', None)
                     | Some m \<Rightarrow> get_revenue_vs_budget m default_entity actuals budget fx)
             else if intent = gross_margin_trend then
               get_gross_margin_trend1 actuals fx default_entity
             else if intent = opex_breakdown then
               (if not_month mth
                then Inr (''Please specify the month (e.g., June 2024) for Opex breakdown.'', None)
                else case mth of
                       None \<Rightarrow> Inr (''Please specify the month (e.g., June 2024) for Opex breakdown.'', None)
                     | Some m \<Rightarrow> get_opex_breakdown1 m default_entity actuals fx)
             else if intent = ebitda_trend then
               get_ebitda_trend actuals fx default_entity
             else if intent = ebitda_vs_budget then
               (if not_month mth
                then Inr (''Please specify the month (e.g., June 2024) for EBITDA vs Budget.'', None)
                else case mth of
                       None \<Rightarrow> Inr (''Please specify the month (e.g., June 2024) for EBITDA vs Budget.'', None)
                     | Some m \<Rightarrow> get_ebitda_vs_budget m default_entity actuals budget fx)
             else if intent = cash_runway then
               (case cash of
                  None \<Rightarrow> Inr (''Cash data not provided.'', None)
                | Some cash \<Rightarrow> get_cash_runway cash actuals fx default_entity)
             else Inr (''Intent not implemented.'', None)))"

section \<open>Notions of the specification\<close>

text \<open>Case-insensitive substring containment: the question has a contiguous block that
  equals the keyword up to letter case.\<close>

definition mentions :: "string \<Rightarrow> string \<Rightarrow> bool" where
  "mentions kw q = (\<exists>u w v. q = u @ w @ v \<and> lower w = lower kw)"

text \<open>The text of a response, when the call returned one.\<close>

definition response_text :: "error + response \<Rightarrow> string option" where
  "response_text r = (case r of Inl e \<Rightarrow> None | Inr (t, c) \<Rightarrow> Some t)"

text \<open>The rate of a (month, currency) pair: that of the first FX row, in input order, with
  this month and currency and a rate present.\<close>

definition first_rate :: "fx_record list \<Rightarrow> string \<Rightarrow> string \<Rightarrow> rat option" where
  "first_rate fx m c =
     (case find (\<lambda>f. fx_month f = Some m \<and> fx_currency f = Some c \<and> fx_rate_to_usd f \<noteq> None) fx of
        None \<Rightarrow> None
      | Some f \<Rightarrow> fx_rate_to_usd f)"

text \<open>The normalized form of a record, when it has month, currency and amount and its
  pair has a rate.\<close>

definition normalize_record :: "fx_record list \<Rightarrow> fin_record \<Rightarrow> usd_record option" where
  "normalize_record fx r =
     (case (month r, currency r, amount r) of
        (Some m, Some c, Some a) \<Rightarrow>
          (case first_rate fx m c of
             None \<Rightarrow> None
           | Some x \<Rightarrow>
               Some \<lparr>month = month r, entity = entity r, account_category = account_category r,
                     amount = amount r, currency = currency r, rate_to_usd = Some x,
                     amount_usd = Some (a * x)\<rparr>)
      | _ \<Rightarrow> None)"

text \<open>The normalizer as the specification words it: the convertible records, in order,
  each extended.\<close>

definition convert_spec :: "fin_record list \<Rightarrow> fx_record list \<Rightarrow> usd_record list" where
  "convert_spec df fx = List.map_filter (normalize_record fx) df"

text \<open>A convertible Revenue row of a table for a month and an entity.\<close>

definition convertible_revenue_row :: "string \<Rightarrow> string \<Rightarrow> fx_record list \<Rightarrow> fin_record \<Rightarrow> bool" where
  "convertible_revenue_row mth ent fx r =
     (month r = Some mth \<and> entity r = Some ent \<and> account_category r = ''Revenue''
      \<and> amount r \<noteq> None
      \<and> (case currency r of None \<Rightarrow> False | Some c \<Rightarrow> first_rate fx mth c \<noteq> None))"



section \<open>The intent classifier\<close>

lemma startswith_iff: "startswith p s \<longleftrightarrow> (\<exists>v. s = p @ v)"
  by (induction p s rule: startswith.induct) auto

lemma contains_iff: "contains p s \<longleftrightarrow> (\<exists>u v. s = u @ p @ v)"
proof (induction s)
  case Nil
  then show ?case by auto
next
  case (Cons c cs)
  show ?case
  proof
    assume "contains p (c # cs)"
    then consider "startswith p (c # cs)" | "contains p cs" by auto
    then show "\<exists>u v. c # cs = u @ p @ v"
    proof cases
      case 1
      then obtain v where "c # cs = p @ v" by (auto simp: startswith_iff)
      then have "c # cs = [] @ p @ v" by simp
      then show ?thesis by blast
    next
      case 2
      then obtain u v where "cs = u @ p @ v" using Cons.IH by blast
      then have "c # cs = (c # u) @ p @ v" by simp
      then show ?thesis by blast
    qed
  next
    assume "\<exists>u v. c # cs = u @ p @ v"
    then obtain u v where uv: "c # cs = u @ p @ v" by blast
    show "contains p (c # cs)"
    proof (cases u)
      case Nil
      with uv have "startswith p (c # cs)" by (auto simp: startswith_iff)
      then show ?thesis by simp
    next
      case (Cons d u')
      with uv have "cs = u' @ p @ v" by simp
      then have "contains p cs" using Cons.IH by blast
      then show ?thesis by simp
    qed
  qed
qed

lemma lower_append: "lower (a @ b) = lower a @ lower b"
  by (simp add: lower_def)

lemma contains_lower_iff: "contains (lower kw) (lower q) \<longleftrightarrow> mentions kw q"
proof
  assume "contains (lower kw) (lower q)"
  then obtain u v where uv: "lower q = u @ lower kw @ v" by (auto simp: contains_iff)
  let ?n = "length u" and ?k = "length kw"
  have len: "length (lower kw) = ?k" by (simp add: lower_def)
  have q: "q = take ?n q @ take ?k (drop ?n q) @ drop ?k (drop ?n q)"
    by (simp only: append_take_drop_id)
  have "lower (take ?k (drop ?n q)) = take ?k (drop ?n (lower q))"
    by (simp add: lower_def take_map drop_map)
  also have "\<dots> = lower kw" using uv len by simp
  finally show "mentions kw q" unfolding mentions_def using q by blast
next
  assume "mentions kw q"
  then obtain u w v where "q = u @ w @ v" "lower w = lower kw" by (auto simp: mentions_def)
  then have "lower q = lower u @ lower kw @ lower v" by (simp add: lower_append)
  then show "contains (lower kw) (lower q)" unfolding contains_iff by blast
qed

lemma lower_keywords:
  "lower ''revenue'' = ''revenue''" "lower ''budget'' = ''budget''"
  "lower ''gross margin'' = ''gross margin''" "lower ''opex'' = ''opex''"
  "lower ''ebitda'' = ''ebitda''" "lower ''cash runway'' = ''cash runway''"
  by (simp_all add: lower_def lower_char_def)

lemma contains_keyword:
  "contains ''revenue'' (lower q) = mentions ''revenue'' q"
  "contains ''budget'' (lower q) = mentions ''budget'' q"
  "contains ''gross margin'' (lower q) = mentions ''gross margin'' q"
  "contains ''opex'' (lower q) = mentions ''opex'' q"
  "contains ''ebitda'' (lower q) = mentions ''ebitda'' q"
  "contains ''cash runway'' (lower q) = mentions ''cash runway'' q"
  using contains_lower_iff [of "''revenue''" q] contains_lower_iff [of "''budget''" q]
    contains_lower_iff [of "''gross margin''" q] contains_lower_iff [of "''opex''" q]
    contains_lower_iff [of "''ebitda''" q] contains_lower_iff [of "''cash runway''" q]
  by (simp_all only: lower_keywords)

text \<open>
  C1. For every question the classifier returns exactly one of the seven intent tags,
  found by trying the six keyword rules in order on the question, each keyword matched as
  a substring up to letter case, the first matching rule winning and \<open>unknown\<close>
  otherwise. A question that mentions both "ebitda" and "budget" and matches no earlier
  rule is \<open>ebitda_vs_budget\<close>; a question that mentions "budget" is never
  \<open>ebitda_trend\<close>. The intent is a function of the question text alone.
\<close>

theorem classify_intent_ordered_rules:
  "classify_intent q =
     (if mentions ''revenue'' q \<and> mentions ''budget'' q then revenue_vs_budget
      else if mentions ''gross margin'' q then gross_margin_trend
      else if mentions ''opex'' q then opex_breakdown
      else if mentions ''ebitda'' q \<and> \<not> mentions ''budget'' q then ebitda_trend
      else if mentions ''ebitda'' q \<and> mentions ''budget'' q then ebitda_vs_budget
      else if mentions ''cash runway'' q then cash_runway
      else unknown)
   \<and> classify_intent q \<in> {revenue_vs_budget, gross_margin_trend, opex_breakdown, ebitda_trend,
        ebitda_vs_budget, cash_runway, unknown}
   \<and> (mentions ''ebitda'' q \<and> mentions ''budget'' q \<and> \<not> mentions ''revenue'' q
        \<and> \<not> mentions ''gross margin'' q \<and> \<not> mentions ''opex'' q
      \<longrightarrow> classify_intent q = ebitda_vs_budget)
   \<and> (mentions ''budget'' q \<longrightarrow> classify_intent q \<noteq> ebitda_trend)"
proof -
  have chain: "classify_intent q =
     (if mentions ''revenue'' q \<and> mentions ''budget'' q then revenue_vs_budget
      else if mentions ''gross margin'' q then gross_margin_trend
      else if mentions ''opex'' q then opex_breakdown
      else if mentions ''ebitda'' q \<and> \<not> mentions ''budget'' q then ebitda_trend
      else if mentions ''ebitda'' q \<and> mentions ''budget'' q then ebitda_vs_budget
      else if mentions ''cash runway'' q then cash_runway
      else unknown)"
    unfolding classify_intent_def Let_def contains_keyword by (rule refl)
  have tags: "classify_intent q \<in> {revenue_vs_budget, gross_margin_trend, opex_breakdown,
        ebitda_trend, ebitda_vs_budget, cash_runway, unknown}"
    by (cases "classify_intent q") simp_all
  from chain tags show ?thesis by simp
qed

theorem classify_intent_ordered_rules_witness:
  "mentions ''ebitda'' ''EBITDA vs budget'' \<and> mentions ''budget'' ''EBITDA vs budget''
   \<and> \<not> mentions ''revenue'' ''EBITDA vs budget'' \<and> \<not> mentions ''gross margin'' ''EBITDA vs budget''
   \<and> \<not> mentions ''opex'' ''EBITDA vs budget''
   \<and> classify_intent ''EBITDA vs budget'' = ebitda_vs_budget
   \<and> classify_intent ''EBITDA vs budget'' \<noteq> ebitda_trend"
proof -
  have l: "lower ''EBITDA vs budget'' = ''ebitda vs budget''"
    by (simp add: lower_def lower_char_def)
  have m: "mentions ''ebitda'' ''EBITDA vs budget''" "mentions ''budget'' ''EBITDA vs budget''"
    "\<not> mentions ''revenue'' ''EBITDA vs budget''" "\<not> mentions ''gross margin'' ''EBITDA vs budget''"
    "\<not> mentions ''opex'' ''EBITDA vs budget''"
    unfolding contains_keyword [symmetric] l by simp_all
  with classify_intent_ordered_rules [of "''EBITDA vs budget''"] show ?thesis by simp
qed

section \<open>The currency normalizer and Revenue vs Budget\<close>

lemma filter_drop_duplicates:
  "filter (\<lambda>f. (fx_month f, fx_currency f) = k) (drop_duplicates seen fs) =
     (if k \<in> set seen then []
      else case find (\<lambda>f. (fx_month f, fx_currency f) = k) fs of None \<Rightarrow> [] | Some f \<Rightarrow> [f])"
proof (induction fs arbitrary: seen)
  case Nil
  then show ?case by simp
next
  case (Cons f fs)
  show ?case
  proof (cases "(fx_month f, fx_currency f) \<in> set seen")
    case True
    then show ?thesis using Cons.IH [of seen] by auto
  next
    case False
    then show ?thesis using Cons.IH [of "(fx_month f, fx_currency f) # seen"] by auto
  qed
qed

lemma find_filter: "find P (filter Q xs) = find (\<lambda>x. Q x \<and> P x) xs"
  by (induction xs) auto

lemma find_cong_weak: "(\<And>x. P x = Q x) \<Longrightarrow> find P xs = find Q xs"
  by (induction xs) auto

lemma matching_rows:
  "filter (\<lambda>f. fx_month f = Some m \<and> fx_currency f = Some c) (drop_duplicates [] (dropna_fx fx)) =
     (case find (\<lambda>f. fx_month f = Some m \<and> fx_currency f = Some c \<and> fx_rate_to_usd f \<noteq> None) fx of
        None \<Rightarrow> [] | Some f \<Rightarrow> [f])"
proof -
  have "filter (\<lambda>f. fx_month f = Some m \<and> fx_currency f = Some c) (drop_duplicates [] (dropna_fx fx))
      = filter (\<lambda>f. (fx_month f, fx_currency f) = (Some m, Some c)) (drop_duplicates [] (dropna_fx fx))"
    by simp
  also have "\<dots> = (case find (\<lambda>f. (fx_month f, fx_currency f) = (Some m, Some c)) (dropna_fx fx) of
        None \<Rightarrow> [] | Some f \<Rightarrow> [f])"
    by (simp only: filter_drop_duplicates) simp
  also have "find (\<lambda>f. (fx_month f, fx_currency f) = (Some m, Some c)) (dropna_fx fx)
      = find (\<lambda>f. fx_month f = Some m \<and> fx_currency f = Some c \<and> fx_rate_to_usd f \<noteq> None) fx"
    unfolding dropna_fx_def find_filter by (rule find_cong_weak) auto
  finally show ?thesis .
qed

lemma find_SomeD: "find P xs = Some x \<Longrightarrow> P x \<and> x \<in> set xs"
  by (induction xs) (auto split: if_splits)

lemma merge_one:
  assumes "month r = Some m" "currency r = Some c" "amount r = Some a"
  shows "map set_amount_usd (filter (\<lambda>m. rate_to_usd m \<noteq> None)
           (case filter (\<lambda>f. fx_month f = month r \<and> fx_currency f = currency r)
                   (drop_duplicates [] (dropna_fx fx)) of
              [] \<Rightarrow> [with_rate r None]
            | ms \<Rightarrow> map (\<lambda>f. with_rate r (fx_rate_to_usd f)) ms))
         = (case normalize_record fx r of None \<Rightarrow> [] | Some u \<Rightarrow> [u])"
proof (cases "find (\<lambda>f. fx_month f = Some m \<and> fx_currency f = Some c \<and> fx_rate_to_usd f \<noteq> None) fx")
  case None
  then show ?thesis
    using assms by (simp add: matching_rows normalize_record_def first_rate_def with_rate_def)
next
  case (Some f)
  then obtain x where x: "fx_rate_to_usd f = Some x" using find_SomeD [OF Some] by auto
  show ?thesis
    using assms Some x
    by (simp add: matching_rows normalize_record_def first_rate_def with_rate_def
        set_amount_usd_def mul_cells_def)
qed

lemma normalize_record_incomplete:
  "month r = None \<or> currency r = None \<or> amount r = None \<Longrightarrow> normalize_record fx r = None"
  by (auto simp: normalize_record_def split: option.splits)

lemma convert_to_usd_eq_spec: "convert_to_usd df fx = convert_spec df fx"
proof -
  have "map set_amount_usd (filter (\<lambda>m. rate_to_usd m \<noteq> None)
          (merge_left (dropna_records df) (drop_duplicates [] (dropna_fx fx))))
        = List.map_filter (normalize_record fx) df"
  proof (induction df)
    case Nil
    then show ?case by (simp add: merge_left_def dropna_records_def List.map_filter_simps)
  next
    case (Cons r df)
    show ?case
    proof (cases "month r \<noteq> None \<and> currency r \<noteq> None \<and> amount r \<noteq> None")
      case True
      then obtain m c a where mca: "month r = Some m" "currency r = Some c" "amount r = Some a"
        by auto
      have split: "merge_left (dropna_records (r # df)) (drop_duplicates [] (dropna_fx fx)) =
          (case filter (\<lambda>f. fx_month f = month r \<and> fx_currency f = currency r)
                   (drop_duplicates [] (dropna_fx fx)) of
              [] \<Rightarrow> [with_rate r None]
            | ms \<Rightarrow> map (\<lambda>f. with_rate r (fx_rate_to_usd f)) ms)
          @ merge_left (dropna_records df) (drop_duplicates [] (dropna_fx fx))"
        using True by (simp add: merge_left_def dropna_records_def)
      show ?thesis
        unfolding split filter_append map_append merge_one [OF mca] Cons.IH
        by (cases "normalize_record fx r") (simp_all add: List.map_filter_simps)
    next
      case False
      then have n: "normalize_record fx r = None"
        by (intro normalize_record_incomplete) auto
      have "dropna_records (r # df) = dropna_records df"
        using False by (auto simp: dropna_records_def)
      then show ?thesis using Cons.IH n by (simp add: List.map_filter_simps)
    qed
  qed
  then show ?thesis by (simp add: convert_to_usd_def convert_spec_def Let_def)
qed

lemma normalize_record_SomeD:
  assumes "normalize_record fx r = Some u"
  shows "\<exists>m c a x. month r = Some m \<and> currency r = Some c \<and> amount r = Some a
           \<and> first_rate fx m c = Some x
           \<and> month u = month r \<and> entity u = entity r \<and> account_category u = account_category r
           \<and> amount u = amount r \<and> currency u = currency r
           \<and> rate_to_usd u = Some x \<and> amount_usd u = Some (a * x)"
  using assms by (auto simp: normalize_record_def split: option.splits)

lemma set_map_filter: "set (List.map_filter g xs) = {y. \<exists>x \<in> set xs. g x = Some y}"
  by (induction xs) (auto split: option.splits)

lemma in_convert_to_usd:
  "u \<in> set (convert_to_usd df fx) \<longleftrightarrow> (\<exists>r \<in> set df. normalize_record fx r = Some u)"
  by (simp add: convert_to_usd_eq_spec convert_spec_def set_map_filter)



lemma format_money_zero: "format_money 0 = ''0''"
  by code_simp

lemma no_revenue_rows:
  assumes "\<forall>r \<in> set df. \<not> convertible_revenue_row mth ent fx r"
  shows "filter (\<lambda>r. month r = Some mth \<and> entity r = Some ent \<and> account_category r = ''Revenue'')
           (convert_to_usd df fx) = []"
proof -
  have "\<not> (month u = Some mth \<and> entity u = Some ent \<and> account_category u = ''Revenue'')"
    if "u \<in> set (convert_to_usd df fx)" for u
  proof
    assume u: "month u = Some mth \<and> entity u = Some ent \<and> account_category u = ''Revenue''"
    from that obtain r where r: "r \<in> set df" "normalize_record fx r = Some u"
      by (auto simp: in_convert_to_usd)
    from normalize_record_SomeD [OF r(2)] u have "convertible_revenue_row mth ent fx r"
      by (auto simp: convertible_revenue_row_def)
    with assms r(1) show False by blast
  qed
  then show ?thesis by (simp add: filter_empty_conv)
qed

text \<open>
  C8. When neither the actuals nor the budget table has a convertible Revenue row for the
  month and entity, Revenue vs Budget returns the text with \<open>Actual $0 vs Budget $0\<close>
  and a chart of two zero bars; it does not raise.
\<close>

theorem revenue_vs_budget_no_rows:
  assumes "\<forall>r \<in> set actuals. \<not> convertible_revenue_row mth ent fx r"
    and "\<forall>r \<in> set budget. \<not> convertible_revenue_row mth ent fx r"
  shows "get_revenue_vs_budget mth ent actuals budget fx =
     Inr (''Revenue in '' @ mth @ '' for '' @ ent @ '': Actual $0 vs Budget $0'',
          Some (BarChart (''Revenue vs Budget - '' @ mth @ '' ('' @ ent @ '')'')
                  [''Actual'', ''Budget''] [0, 0]))"
  unfolding get_revenue_vs_budget_def Let_def no_revenue_rows [OF assms(1)]
    no_revenue_rows [OF assms(2)]
  by (simp add: sum_cells_def format_money_zero)

theorem revenue_vs_budget_no_rows_witness:
  "\<not> convertible_revenue_row ''2024-07'' ''ParentCo''
          [\<lparr>fx_month = Some ''2024-06'', fx_currency = Some ''EUR'', fx_rate_to_usd = Some (11 / 10)\<rparr>]
          \<lparr>month = Some ''2024-06'', entity = Some ''ParentCo'', account_category = ''Revenue'',
            amount = Some 1000, currency = Some ''EUR''\<rparr>
   \<and> \<not> convertible_revenue_row ''2024-07'' ''ParentCo''
          [\<lparr>fx_month = Some ''2024-06'', fx_currency = Some ''EUR'', fx_rate_to_usd = Some (11 / 10)\<rparr>]
          \<lparr>month = Some ''2024-07'', entity = Some ''ParentCo'', account_category = ''Revenue'',
            amount = Some 900, currency = Some ''EUR''\<rparr>
   \<and> response_text (get_revenue_vs_budget ''2024-07'' ''ParentCo''
        [\<lparr>month = Some ''2024-06'', entity = Some ''ParentCo'', account_category = ''Revenue'',
          amount = Some 1000, currency = Some ''EUR''\<rparr>]
        [\<lparr>month = Some ''2024-07'', entity = Some ''ParentCo'', account_category = ''Revenue'',
          amount = Some 900, currency = Some ''EUR''\<rparr>]
        [\<lparr>fx_month = Some ''2024-06'', fx_currency = Some ''EUR'', fx_rate_to_usd = Some (11 / 10)\<rparr>])
     = Some ''Revenue in 2024-07 for ParentCo: Actual $0 vs Budget $0''"
proof -
  have a: "\<forall>r \<in> set [\<lparr>month = Some ''2024-06'', entity = Some ''ParentCo'', account_category = ''Revenue'',
        amount = Some 1000, currency = Some ''EUR''\<rparr>].
      \<not> convertible_revenue_row ''2024-07'' ''ParentCo''
          [\<lparr>fx_month = Some ''2024-06'', fx_currency = Some ''EUR'', fx_rate_to_usd = Some (11 / 10)\<rparr>] r"
    by (simp add: convertible_revenue_row_def)
  have b: "\<forall>r \<in> set [\<lparr>month = Some ''2024-07'', entity = Some ''ParentCo'', account_category = ''Revenue'',
        amount = Some 900, currency = Some ''EUR''\<rparr>].
      \<not> convertible_revenue_row ''2024-07'' ''ParentCo''
          [\<lparr>fx_month = Some ''2024-06'', fx_currency = Some ''EUR'', fx_rate_to_usd = Some (11 / 10)\<rparr>] r"
    by (simp add: convertible_revenue_row_def first_rate_def)
  from a b revenue_vs_budget_no_rows [OF a b] show ?thesis
    by (simp add: response_text_def)
qed

section \<open>The orchestrator\<close>

lemma q_unknown: "classify_intent ''How are we doing?'' = unknown" by code_simp
lemma q_rev: "classify_intent ''Revenue vs budget?'' = revenue_vs_budget" by code_simp
lemma q_rev_month: "extract_month ''Revenue vs budget?'' = Inr None" by code_simp
lemma q_cash: "classify_intent ''What is our cash runway?'' = cash_runway" by code_simp
lemma q_unknown2: "classify_intent ''What is the weather?'' = unknown" by code_simp

lemma parse_month_year_total: "\<exists>m. parse_month_year t = Inr m"
  by (auto simp: parse_month_year_def strptime_def Let_def split: option.splits prod.splits sum.splits error.splits)

lemma extract_month_total: "\<exists>m. extract_month q = Inr m"
  using parse_month_year_total by (auto simp: extract_month_def split: option.splits)

text \<open>
  C7. For a user-input problem \<open>run_agent\<close> returns a guidance text and no chart,
  and raises nothing: the fixed could-not-understand message when the intent is unknown;
  a message asking for the month when the intent is \<open>revenue_vs_budget\<close>,
  \<open>opex_breakdown\<close> or \<open>ebitda_vs_budget\<close> and no month was extracted; and
  "Cash data not provided." when the intent is \<open>cash_runway\<close> and no cash table was
  passed. Extracting the month never fails.
\<close>

theorem run_agent_guidance:
  "(classify_intent q = unknown \<longrightarrow>
      run_agent q a b f c e = Inr (''Sorry, I could not understand the question.'', None))
   \<and> (classify_intent q = revenue_vs_budget \<and> extract_month q = Inr None \<longrightarrow>
      run_agent q a b f c e =
        Inr (''Please specify the month (e.g., June 2024) for Revenue vs Budget.'', None))
   \<and> (classify_intent q = opex_breakdown \<and> extract_month q = Inr None \<longrightarrow>
      run_agent q a b f c e =
        Inr (''Please specify the month (e.g., June 2024) for Opex breakdown.'', None))
   \<and> (classify_intent q = ebitda_vs_budget \<and> extract_month q = Inr None \<longrightarrow>
      run_agent q a b f c e =
        Inr (''Please specify the month (e.g., June 2024) for EBITDA vs Budget.'', None))
   \<and> (classify_intent q = cash_runway \<longrightarrow>
      run_agent q a b f None e = Inr (''Cash data not provided.'', None))
   \<and> (\<exists>m. extract_month q = Inr m)"
proof -
  obtain m where m: "extract_month q = Inr m" using extract_month_total by blast
  have 1: "classify_intent q = unknown \<longrightarrow>
      run_agent q a b f c e = Inr (''Sorry, I could not understand the question.'', None)"
    by (simp add: run_agent_def)
  have 2: "classify_intent q = revenue_vs_budget \<and> extract_month q = Inr None \<longrightarrow>
      run_agent q a b f c e =
        Inr (''Please specify the month (e.g., June 2024) for Revenue vs Budget.'', None)"
    by (simp add: run_agent_def not_month_def)
  have 3: "classify_intent q = opex_breakdown \<and> extract_month q = Inr None \<longrightarrow>
      run_agent q a b f c e =
        Inr (''Please specify the month (e.g., June 2024) for Opex breakdown.'', None)"
    by (simp add: run_agent_def not_month_def)
  have 4: "classify_intent q = ebitda_vs_budget \<and> extract_month q = Inr None \<longrightarrow>
      run_agent q a b f c e =
        Inr (''Please specify the month (e.g., June 2024) for EBITDA vs Budget.'', None)"
    by (simp add: run_agent_def not_month_def)
  have 5: "classify_intent q = cash_runway \<longrightarrow>
      run_agent q a b f None e = Inr (''Cash data not provided.'', None)"
    using m by (simp add: run_agent_def)
  from 1 2 3 4 5 m show ?thesis by blast
qed

theorem run_agent_guidance_witness:
  "classify_intent ''How are we doing?'' = unknown
   \<and> run_agent ''How are we doing?'' [] [] [] None ''ParentCo''
       = Inr (''Sorry, I could not understand the question.'', None)
   \<and> classify_intent ''Revenue vs budget?'' = revenue_vs_budget
   \<and> extract_month ''Revenue vs budget?'' = Inr None
   \<and> run_agent ''Revenue vs budget?'' [] [] [] None ''ParentCo''
       = Inr (''Please specify the month (e.g., June 2024) for Revenue vs Budget.'', None)
   \<and> classify_intent ''What is our cash runway?'' = cash_runway
   \<and> run_agent ''What is our cash runway?'' [] [] [] None ''ParentCo''
       = Inr (''Cash data not provided.'', None)"
  using run_agent_guidance [where q = "''How are we doing?''" and a = "[]" and b = "[]"
      and f = "[]" and c = None and e = "''ParentCo''"]
    run_agent_guidance [where q = "''Revenue vs budget?''" and a = "[]" and b = "[]"
      and f = "[]" and c = None and e = "''ParentCo''"]
    run_agent_guidance [where q = "''What is our cash runway?''" and a = "[]" and b = "[]"
      and f = "[]" and c = None and e = "''ParentCo''"]
    q_unknown q_rev q_rev_month q_cash
  by simp

text \<open>
  C10. For a question classified as unknown, \<open>run_agent\<close> returns the fixed text
  "Sorry, I could not understand the question." and no chart, the same for any two
  choices of the actuals, budget, FX and cash tables and of the default entity.
\<close>

theorem run_agent_unknown_ignores_tables:
  "classify_intent q = unknown \<Longrightarrow>
     run_agent q a b f c e = Inr (''Sorry, I could not understand the question.'', None)
     \<and> run_agent q a b f c e = run_agent q a' b' f' c' e'"
  by (simp add: run_agent_def)

theorem run_agent_unknown_ignores_tables_witness:
  "classify_intent ''What is the weather?'' = unknown
   \<and> run_agent ''What is the weather?'' [] [] [] None ''ParentCo''
       = run_agent ''What is the weather?''
           [\<lparr>month = Some ''2024-06'', entity = Some ''ParentCo'', account_category = ''Revenue'',
             amount = Some 1000, currency = Some ''EUR''\<rparr>] []
           [\<lparr>fx_month = Some ''2024-06'', fx_currency = Some ''EUR'', fx_rate_to_usd = Some (11 / 10)\<rparr>]
           (Some []) ''SubCo''"
  using run_agent_unknown_ignores_tables [OF q_unknown2] q_unknown2 by simp


section \<open>Scenarios\<close>

text \<open>
  The scenario of C3 with an FX table that holds the EUR rate only: the budget row is in
  USD, has no rate, is dropped by the normalizer, and the budget reads \<open>$0\<close>.
\<close>

theorem run_agent_june_scenario_counterexample:
  "response_text (run_agent ''Revenue vs Budget for June 2024''
     [\<lparr>month = Some ''2024-06'', entity = Some ''ParentCo'', account_category = ''Revenue'',
       amount = Some 1000, currency = Some ''EUR''\<rparr>]
     [\<lparr>month = Some ''2024-06'', entity = Some ''ParentCo'', account_category = ''Revenue'',
       amount = Some 900, currency = Some ''USD''\<rparr>]
     [\<lparr>fx_month = Some ''2024-06'', fx_currency = Some ''EUR'', fx_rate_to_usd = Some (11 / 10)\<rparr>]
     None ''ParentCo'')
   = Some ''Revenue in 2024-06 for ParentCo: Actual $1,100 vs Budget $0''
   \<and> response_text (run_agent ''Revenue vs Budget for June 2024''
     [\<lparr>month = Some ''2024-06'', entity = Some ''ParentCo'', account_category = ''Revenue'',
       amount = Some 1000, currency = Some ''EUR''\<rparr>]
     [\<lparr>month = Some ''2024-06'', entity = Some ''ParentCo'', account_category = ''Revenue'',
       amount = Some 900, currency = Some ''USD''\<rparr>]
     [\<lparr>fx_month = Some ''2024-06'', fx_currency = Some ''EUR'', fx_rate_to_usd = Some (11 / 10)\<rparr>]
     None ''ParentCo'')
   \<noteq> Some ''Revenue in 2024-06 for ParentCo: Actual $1,100 vs Budget $900''"
  by code_simp

text \<open>
  C3, amended. For the question "Revenue vs Budget for June 2024", an actuals table with
  one Revenue row of 1000 EUR for ParentCo in 2024-06, a budget table with one Revenue row
  of 900 USD for ParentCo in 2024-06, and an FX table with the rates 1.1 for EUR and 1 for
  USD in 2024-06, \<open>run_agent\<close> returns the text
  "Revenue in 2024-06 for ParentCo: Actual $1,100 vs Budget $900".
\<close>

theorem run_agent_june_scenario:
  "response_text (run_agent ''Revenue vs Budget for June 2024''
     [\<lparr>month = Some ''2024-06'', entity = Some ''ParentCo'', account_category = ''Revenue'',
       amount = Some 1000, currency = Some ''EUR''\<rparr>]
     [\<lparr>month = Some ''2024-06'', entity = Some ''ParentCo'', account_category = ''Revenue'',
       amount = Some 900, currency = Some ''USD''\<rparr>]
     [\<lparr>fx_month = Some ''2024-06'', fx_currency = Some ''EUR'', fx_rate_to_usd = Some (11 / 10)\<rparr>,
      \<lparr>fx_month = Some ''2024-06'', fx_currency = Some ''USD'', fx_rate_to_usd = Some 1\<rparr>]
     None ''ParentCo'')
   = Some ''Revenue in 2024-06 for ParentCo: Actual $1,100 vs Budget $900''"
  by code_simp

text \<open>
  C5 says that no metric function raises on well-typed tables, in particular the two
  trends when the entity's slice has no Revenue or no COGS rows. On an actuals table whose
  only row for the entity is a COGS row, both trends raise \<open>KeyError\<close> for the
  column \<open>Revenue\<close> that the pivot does not have, and so does \<open>run_agent\<close>.
\<close>

theorem trend_without_revenue_rows_raises:
  "get_gross_margin_trend1
     [\<lparr>month = Some ''2024-06'', entity = Some ''ParentCo'', account_category = ''COGS'',
       amount = Some 400, currency = Some ''USD''\<rparr>]
     [\<lparr>fx_month = Some ''2024-06'', fx_currency = Some ''USD'', fx_rate_to_usd = Some 1\<rparr>]
     ''ParentCo'' = Inl (KeyError ''Revenue'')
   \<and> get_ebitda_trend
     [\<lparr>month = Some ''2024-06'', entity = Some ''ParentCo'', account_category = ''COGS'',
       amount = Some 400, currency = Some ''USD''\<rparr>]
     [\<lparr>fx_month = Some ''2024-06'', fx_currency = Some ''USD'', fx_rate_to_usd = Some 1\<rparr>]
     ''ParentCo'' = Inl (KeyError ''Revenue'')
   \<and> run_agent ''Show the gross margin trend''
     [\<lparr>month = Some ''2024-06'', entity = Some ''ParentCo'', account_category = ''COGS'',
       amount = Some 400, currency = Some ''USD''\<rparr>]
     []
     [\<lparr>fx_month = Some ''2024-06'', fx_currency = Some ''USD'', fx_rate_to_usd = Some 1\<rparr>]
     None ''ParentCo'' = Inl (KeyError ''Revenue'')"
  by code_simp

text \<open>
  C4 gives the runway for every cash, actuals and FX table and entity. On tables in which
  the entity has no normalized actuals row, \<open>get_cash_runway\<close> raises instead of
  reporting a runway.
\<close>

theorem cash_runway_without_entity_rows_raises:
  "get_cash_runway
     [\<lparr>cash_month = Some ''2024-06'', cash_entity = Some ''ParentCo'', cash_usd = Some 5000\<rparr>]
     [\<lparr>month = Some ''2024-06'', entity = Some ''SubCo'', account_category = ''COGS'',
       amount = Some 400, currency = Some ''USD''\<rparr>]
     [\<lparr>fx_month = Some ''2024-06'', fx_currency = Some ''USD'', fx_rate_to_usd = Some 1\<rparr>]
     ''ParentCo'' = Inl (ValueError ''cannot insert month, already exists'')"
  by code_simp

section \<open>Month extraction\<close>










































end
